theory Spec2Isabelle
  imports Complex_Main
begin

section \<open>The StamPLC MQTT command client (examples/mqtt\_command\_client.py)\<close>

text \<open>
  The class \<open>StamPLCClient\<close> turns an MQTT publish/subscribe session into a
  request/response API. Two threads touch the client object: the caller's thread, which
  runs \<open>connect\<close> and \<open>send_command\<close>, and the network thread started by
  \<open>loop_start\<close>, which runs the callbacks \<open>_on_connect\<close> and \<open>_on_message\<close>.
  The model passes the client object explicitly. What the network thread does while the
  caller's thread is inside \<open>connect\<close> or \<open>send_command\<close> is an input of the model
  (a schedule), as are the readings of \<open>time.time()\<close>.
\<close>

subsection \<open>Decoded JSON values and the Python operations used on them\<close>

text \<open>
  The values \<open>json.loads\<close> produces. Python's \<open>None\<close> is \<open>JNull\<close>; a \<open>dict\<close> is
  the list of its items (keys are looked up with \<open>map_of\<close>).
\<close>

datatype json =
    JNull
  | JBool bool
  | JInt int
  | JFloat real
  | JStr string
  | JArr "json list"
  | JObj "(string \<times> json) list"

text \<open>The exceptions the modelled code can raise; all of them derive from \<open>Exception\<close>.\<close>

datatype exn =
    JSONDecodeError
  | UnicodeDecodeError
  | RecursionError
  | TypeError
  | KeyError
  | OSError

text \<open>Truth value of an object, as \<open>params or {}\<close> tests it.\<close>

fun truthy :: "json \<Rightarrow> bool" where
  "truthy JNull = False"
| "truthy (JBool b) = b"
| "truthy (JInt i) = (i \<noteq> 0)"
| "truthy (JFloat r) = (r \<noteq> 0)"
| "truthy (JStr s) = (s \<noteq> [])"
| "truthy (JArr xs) = (xs \<noteq> [])"
| "truthy (JObj kvs) = (kvs \<noteq> [])"

text \<open>\<open>s.startswith(p)\<close> and the substring test \<open>p in s\<close> on strings.\<close>

definition startswith :: "string \<Rightarrow> string \<Rightarrow> bool" where
  "startswith s p = (take (length p) s = p)"

fun contains :: "string \<Rightarrow> string \<Rightarrow> bool" where
  "contains [] p = (p = [])"
| "contains (c # s) p = (startswith (c # s) p \<or> contains s p)"

text \<open>
  \<open>'id' in data\<close>: key membership on a dict, element membership on a list, substring
  test on a string, \<open>TypeError\<close> on anything else.
\<close>

fun py_id_in :: "json \<Rightarrow> exn + bool" where
  "py_id_in (JObj kvs) = Inr (''id'' \<in> set (map fst kvs))"
| "py_id_in (JArr xs) = Inr (JStr ''id'' \<in> set xs)"
| "py_id_in (JStr s) = Inr (contains s ''id'')"
| "py_id_in _ = Inl TypeError"

text \<open>
  \<open>data['id']\<close>: the value under the key on a dict; a list or a string refuses a string
  index and the other values are not subscriptable.
\<close>

fun py_getitem_id :: "json \<Rightarrow> exn + json" where
  "py_getitem_id (JObj kvs) =
     (case map_of kvs ''id'' of None \<Rightarrow> Inl KeyError | Some v \<Rightarrow> Inr v)"
| "py_getitem_id _ = Inl TypeError"

subsection \<open>Request ids\<close>

text \<open>\<open>str(n)\<close> of an integer is its decimal numeral.\<close>

definition digit_char :: "nat \<Rightarrow> char" where
  "digit_char d = ''0123456789'' ! d"

function str_nat :: "nat \<Rightarrow> string" where
  "str_nat n = (if n < 10 then [digit_char n] else str_nat (n div 10) @ [digit_char (n mod 10)])"
  by pat_completeness auto
termination
  by (relation "measure (\<lambda>n. n)") auto

declare str_nat.simps [simp del]

definition str_int :: "int \<Rightarrow> string" where
  "str_int i = (if i < 0 then CHR ''-'' # str_nat (nat (- i)) else str_nat (nat i))"

text \<open>
  Line 110: \<open>request_id = f"req-{int(time.time() * 1000)}"\<close>. The clock is read and
  multiplied in binary floating point; the integer \<open>ms\<close> that
  \<open>int(time.time() * 1000)\<close> evaluates to is the input here, and the id is formed from it.
\<close>

definition request_id_at :: "int \<Rightarrow> string" where
  "request_id_at ms = ''req-'' @ str_int ms"

subsection \<open>The client object and its effects\<close>

text \<open>
  The topics are instance attributes set once in \<open>__init__\<close> and never assigned again;
  they are constants here.
\<close>

definition rpc_request_prefix :: string where
  "rpc_request_prefix = ''v1/devices/me/rpc/request''"

definition rpc_response_topic :: string where
  "rpc_response_topic = ''v1/devices/me/rpc/response/+''"

definition telemetry_topic :: string where
  "telemetry_topic = ''v1/devices/me/telemetry''"

definition attributes_topic :: string where
  "attributes_topic = ''v1/devices/me/attributes''"

text \<open>The lines the code prints, one constructor per \<open>print\<close> call, with the interpolated values.\<close>

datatype line =
    L_connected string int
  | L_subscribed
  | L_connection_failed int
  | L_response json
  | L_telemetry json
  | L_attributes json
  | L_parse_error string
  | L_error exn
  | L_connect_timeout
  | L_connection_error exn
  | L_not_connected
  | L_sent string string
  | L_timeout string

text \<open>
  The effects of the code in the order it performs them: printing, the calls on the paho
  client, and the writes to \<open>self.connected\<close> and \<open>self.pending_requests\<close>.
\<close>

datatype event =
    Print line
  | ConnectCall string int
  | LoopStart
  | Subscribe string
  | Publish string json
  | SetConnected
  | Store string json
  | Delete string

record client =
  broker :: string
  port :: int
  connected :: bool
  pending_requests :: "string \<rightharpoonup> json"
  trace :: "event list"

text \<open>\<open>__init__\<close>: nothing pending, not connected, nothing done yet.\<close>

definition init :: "string \<Rightarrow> int \<Rightarrow> client" where
  "init b p = \<lparr>broker = b, port = p, connected = False, pending_requests = Map.empty, trace = []\<rparr>"

definition emit :: "event \<Rightarrow> client \<Rightarrow> client" where
  "emit e st = st\<lparr>trace := trace st @ [e]\<rparr>"

definition set_connected :: "client \<Rightarrow> client" where
  "set_connected st = emit SetConnected (st\<lparr>connected := True\<rparr>)"

definition store :: "string \<Rightarrow> json \<Rightarrow> client \<Rightarrow> client" where
  "store k v st = emit (Store k v) (st\<lparr>pending_requests := (pending_requests st)(k \<mapsto> v)\<rparr>)"

text \<open>\<open>del self.pending_requests[k]\<close> raises \<open>KeyError\<close> when the key is absent.\<close>

definition delete :: "string \<Rightarrow> client \<Rightarrow> exn + client" where
  "delete k st =
     (if pending_requests st k \<noteq> None
      then Inr (emit (Delete k) (st\<lparr>pending_requests := (pending_requests st)(k := None)\<rparr>))
      else Inl KeyError)"

subsection \<open>\<open>_on_message\<close>\<close>

text \<open>
  An inbound message. \<open>loads\<close> stands for \<open>json.loads(msg.payload.decode())\<close>, a library
  function: it is a parameter, giving the decoded value or the exception raised.
\<close>

record message =
  topic :: string
  payload :: string

text \<open>
  The body of the \<open>try\<close> block (lines 58 to 71). The result is the exception that left
  the block, if any, and the client as the block left it. In
  \<open>data['id'] in self.pending_requests\<close> the dict has string keys only: a list or a dict
  is unhashable (\<open>TypeError\<close>); a number, a boolean or \<open>None\<close> is hashable and equal to
  no key.
\<close>

definition on_message_try ::
  "(string \<Rightarrow> exn + json) \<Rightarrow> message \<Rightarrow> client \<Rightarrow> exn option \<times> client" where
  "on_message_try loads msg st =
     (case loads (payload msg) of
        Inl e \<Rightarrow> (Some e, st)
      | Inr data \<Rightarrow>
          if startswith (topic msg) ''v1/devices/me/rpc/response/'' then
            (let st1 = emit (Print (L_response data)) st in
             case py_id_in data of
               Inl e \<Rightarrow> (Some e, st1)
             | Inr False \<Rightarrow> (None, st1)
             | Inr True \<Rightarrow>
                 (case py_getitem_id data of
                    Inl e \<Rightarrow> (Some e, st1)
                  | Inr k \<Rightarrow>
                      (case k of
                         JStr s \<Rightarrow>
                           if pending_requests st1 s \<noteq> None then (None, store s data st1)
                           else (None, st1)
                       | JArr xs \<Rightarrow> (Some TypeError, st1)
                       | JObj kvs \<Rightarrow> (Some TypeError, st1)
                       | _ \<Rightarrow> (None, st1))))
          else if topic msg = telemetry_topic then
            (None, emit (Print (L_telemetry data)) st)
          else if topic msg = attributes_topic then
            (None, emit (Print (L_attributes data)) st)
          else (None, st))"

text \<open>
  The handlers: \<open>except json.JSONDecodeError\<close>, then \<open>except Exception\<close>, which catches
  every other exception of \<open>exn\<close>.
\<close>

definition on_message :: "(string \<Rightarrow> exn + json) \<Rightarrow> message \<Rightarrow> client \<Rightarrow> client" where
  "on_message loads msg st =
     (case on_message_try loads msg st of
        (None, st1) \<Rightarrow> st1
      | (Some JSONDecodeError, st1) \<Rightarrow> emit (Print (L_parse_error (payload msg))) st1
      | (Some e, st1) \<Rightarrow> emit (Print (L_error e)) st1)"

text \<open>The network thread handing over a batch of messages, one callback after the other.\<close>

definition deliver :: "(string \<Rightarrow> exn + json) \<Rightarrow> message list \<Rightarrow> client \<Rightarrow> client" where
  "deliver loads msgs st = foldl (\<lambda>s m. on_message loads m s) st msgs"

text \<open>
  The branch of \<open>_on_message\<close> a topic selects, read off the \<open>if\<close>/\<open>elif\<close> chain; a topic
  that matches no branch is handled by none.
\<close>

datatype topic_class = RpcResponse | Telemetry | Attribute | Unrecognized

definition classify :: "string \<Rightarrow> topic_class" where
  "classify t =
     (if startswith t ''v1/devices/me/rpc/response/'' then RpcResponse
      else if t = telemetry_topic then Telemetry
      else if t = attributes_topic then Attribute
      else Unrecognized)"

text \<open>
  The slot a message is addressed to: the string under \<open>id\<close> of a decoded dict that
  arrived on a response topic.
\<close>

definition target_id :: "(string \<Rightarrow> exn + json) \<Rightarrow> message \<Rightarrow> string option" where
  "target_id loads msg =
     (if startswith (topic msg) ''v1/devices/me/rpc/response/'' then
        (case loads (payload msg) of
           Inr (JObj kvs) \<Rightarrow> (case map_of kvs ''id'' of Some (JStr s) \<Rightarrow> Some s | _ \<Rightarrow> None)
         | _ \<Rightarrow> None)
      else None)"

subsection \<open>\<open>_on_connect\<close> and \<open>connect\<close>\<close>

text \<open>
  \<open>_on_connect\<close> as the list of its statements, in program order, so that the caller's
  thread can be scheduled between two of them.
\<close>

definition on_connect_stmts :: "int \<Rightarrow> (client \<Rightarrow> client) list" where
  "on_connect_stmts rc =
     (if rc = 0 then
        [\<lambda>st. emit (Print (L_connected (broker st) (port st))) st,
         set_connected,
         emit (Subscribe rpc_response_topic),
         emit (Subscribe telemetry_topic),
         emit (Subscribe attributes_topic),
         emit (Print L_subscribed)]
      else [emit (Print (L_connection_failed rc))])"

definition run_stmts :: "(client \<Rightarrow> client) list \<Rightarrow> client \<Rightarrow> client" where
  "run_stmts fs st = foldl (\<lambda>s f. f s) st fs"

definition on_connect :: "int \<Rightarrow> client \<Rightarrow> client" where
  "on_connect rc st = run_stmts (on_connect_stmts rc) st"

text \<open>
  What happens around the caller's thread during \<open>connect\<close>: whether
  \<open>self.client.connect\<close> raises, the result code the broker's answer carries (if it
  answers), and how many further statements of \<open>_on_connect\<close> the network thread has run
  before each read of \<open>self.connected\<close> (none once the list is used up).
\<close>

record link =
  dial :: "exn option"
  connack :: "int option"
  progress :: "nat list"

definition seen :: "nat list \<Rightarrow> nat" where
  "seen prog = (case prog of [] \<Rightarrow> 0 | k # _ \<Rightarrow> k)"

text \<open>
  Lines 85 to 88: \<open>while not self.connected and timeout > 0\<close>, each round sleeping half
  a second. \<open>net\<close> holds the statements the network thread has still to run.
\<close>

function connect_wait ::
  "real \<Rightarrow> nat list \<Rightarrow> (client \<Rightarrow> client) list \<Rightarrow> client
     \<Rightarrow> nat list \<times> (client \<Rightarrow> client) list \<times> client" where
  "connect_wait timeout prog net st =
     (let st1 = run_stmts (take (seen prog) net) st in
      if \<not> connected st1 \<and> timeout > 0
      then connect_wait (timeout - 1 / 2) (tl prog) (drop (seen prog) net) st1
      else (tl prog, drop (seen prog) net, st1))"
  by pat_completeness auto
termination
proof (relation "measure (\<lambda>(timeout, prog, net, st). nat \<lceil>2 * timeout\<rceil>)")
  show "wf (measure (\<lambda>(timeout, prog, net, st). nat \<lceil>2 * timeout\<rceil>))" by simp
next
  fix timeout :: real and prog :: "nat list" and net :: "(client \<Rightarrow> client) list"
    and st x :: client
  assume "\<not> connected x \<and> 0 < timeout"
  then have pos: "0 < timeout" by simp
  have "\<lceil>2 * (timeout - 1 / 2)\<rceil> = \<lceil>2 * timeout\<rceil> - 1" by (simp add: algebra_simps)
  moreover have "0 < \<lceil>2 * timeout\<rceil>" using pos by (simp add: ceiling_less_iff)
  ultimately show "((timeout - 1 / 2, tl prog, drop (seen prog) net, x), timeout, prog, net, st)
      \<in> measure (\<lambda>(timeout, prog, net, st). nat \<lceil>2 * timeout\<rceil>)"
    by simp
qed

declare connect_wait.simps [simp del]

text \<open>
  \<open>connect\<close> returns its boolean, the client, and the statements of \<open>_on_connect\<close> the
  network thread has not run yet.
\<close>

definition connect :: "link \<Rightarrow> client \<Rightarrow> bool \<times> client \<times> (client \<Rightarrow> client) list" where
  "connect lk st =
     (let st0 = emit (ConnectCall (broker st) (port st)) st in
      case dial lk of
        Some e \<Rightarrow> (False, emit (Print (L_connection_error e)) st0, [])
      | None \<Rightarrow>
          (let st1 = emit LoopStart st0;
               net = (case connack lk of None \<Rightarrow> [] | Some rc \<Rightarrow> on_connect_stmts rc);
               (prog, net1, st2) = connect_wait 10 (progress lk) net st1;
               st3 = run_stmts (take (seen prog) net1) st2
           in if \<not> connected st3
              then (False, emit (Print L_connect_timeout) st3, drop (seen prog) net1)
              else (True, st3, drop (seen prog) net1)))"

subsection \<open>\<open>send_command\<close>\<close>

text \<open>
  What happens around the caller's thread during \<open>send_command\<close>: the integer
  \<open>int(time.time() * 1000)\<close> of line 110, the reading of \<open>time.time()\<close> at line 127,
  and for each evaluation of the \<open>while\<close>
  test at line 128 the reading there together with the messages the network thread has
  handled since the caller's thread last looked at the table. A schedule that ends while
  the loop is still running gives no result.
\<close>

record schedule =
  clock_id :: int
  clock_start :: real
  polls :: "(real \<times> message list) list"

text \<open>Lines 110 to 123: make the id, mark it pending, publish, print.\<close>

definition send_request :: "string \<Rightarrow> json \<Rightarrow> bool \<Rightarrow> int \<Rightarrow> client \<Rightarrow> client" where
  "send_request cmd_type params wait_response ms st =
     (let request_id = request_id_at ms;
          message = JObj [(''method'', JStr cmd_type),
                          (''params'', if truthy params then params else JObj [])];
          st1 = (if wait_response then store request_id JNull st else st);
          rpc_topic = rpc_request_prefix @ ''/'' @ request_id;
          st2 = emit (Publish rpc_topic message) st1
      in emit (Print (L_sent cmd_type request_id)) st2)"

text \<open>
  Lines 128 to 138. Reading \<open>self.pending_requests[request_id]\<close> or deleting it raises
  \<open>KeyError\<close> when the key is gone.
\<close>

fun wait_loop ::
  "(string \<Rightarrow> exn + json) \<Rightarrow> string \<Rightarrow> real \<Rightarrow> real \<Rightarrow> (real \<times> message list) list
     \<Rightarrow> client \<Rightarrow> ((exn + json) \<times> client) option" where
  "wait_loop loads request_id start_time timeout [] st = None"
| "wait_loop loads request_id start_time timeout ((now, arrived) # rest) st =
     (let st1 = deliver loads arrived st in
      if now - start_time < timeout then
        (case pending_requests st1 request_id of
           None \<Rightarrow> Some (Inl KeyError, st1)
         | Some response \<Rightarrow>
             if response \<noteq> JNull then
               (case delete request_id st1 of
                  Inl e \<Rightarrow> Some (Inl e, st1)
                | Inr st2 \<Rightarrow> Some (Inr response, st2))
             else wait_loop loads request_id start_time timeout rest st1)
      else
        (case delete request_id st1 of
           Inl e \<Rightarrow> Some (Inl e, st1)
         | Inr st2 \<Rightarrow> Some (Inr JNull, emit (Print (L_timeout request_id)) st2)))"

text \<open>\<open>send_command\<close>; the value \<open>Inr JNull\<close> is the Python \<open>None\<close>.\<close>

definition send_command ::
  "(string \<Rightarrow> exn + json) \<Rightarrow> string \<Rightarrow> json \<Rightarrow> bool \<Rightarrow> real \<Rightarrow> schedule \<Rightarrow> client
     \<Rightarrow> ((exn + json) \<times> client) option" where
  "send_command loads cmd_type params wait_response timeout sch st =
     (if \<not> connected st then Some (Inr JNull, emit (Print L_not_connected) st)
      else
        (let st1 = send_request cmd_type params wait_response (clock_id sch) st in
         if wait_response
         then wait_loop loads (request_id_at (clock_id sch)) (clock_start sch) timeout (polls sch) st1
         else Some (Inr (JObj [(''status'', JStr ''sent'')]), st1)))"

subsection \<open>Sample inputs\<close>

text \<open>
  Inputs for the concrete runs below: a decoder that knows four payloads and refuses
  every other one (\<open>A\<close> and \<open>B\<close> are answers to the request \<open>req-1000\<close>, \<open>C\<close> is a
  list, \<open>E\<close> has the id \<open>req-2000\<close> and nothing else); a client that has connected.
\<close>

definition sample_loads :: "string \<Rightarrow> exn + json" where
  "sample_loads p =
     (if p = ''A'' then Inr (JObj [(''id'', JStr ''req-1000''), (''status'', JStr ''success'')])
      else if p = ''B'' then Inr (JObj [(''id'', JStr ''req-1000''), (''status'', JStr ''error'')])
      else if p = ''C'' then Inr (JArr [JStr ''id''])
      else if p = ''E'' then Inr (JObj [(''id'', JStr ''req-2000'')])
      else Inl JSONDecodeError)"

definition sample_client :: client where
  "sample_client = (init ''broker'' 1883)\<lparr>connected := True\<rparr>"

section \<open>Properties\<close>

subsection \<open>Request ids\<close>

lemma digit_char_inj: "a < 10 \<Longrightarrow> b < 10 \<Longrightarrow> digit_char a = digit_char b \<Longrightarrow> a = b"
proof -
  assume a: "a < 10" and b: "b < 10" and e: "digit_char a = digit_char b"
  have d: "distinct ''0123456789''" by simp
  have "a < length ''0123456789''" "b < length ''0123456789''" using a b by simp_all
  with d e show "a = b" unfolding digit_char_def by (simp only: nth_eq_iff_index_eq)
qed

lemma str_nat_nonempty: "str_nat n \<noteq> []"
  by (subst str_nat.simps) simp

lemma str_nat_length_ge2: "10 \<le> n \<Longrightarrow> 2 \<le> length (str_nat n)"
proof -
  assume "10 \<le> n"
  then have "str_nat n = str_nat (n div 10) @ [digit_char (n mod 10)]"
    by (subst str_nat.simps) simp
  moreover have "1 \<le> length (str_nat (n div 10))"
    using str_nat_nonempty [of "n div 10"] by (cases "str_nat (n div 10)") simp_all
  ultimately show ?thesis by simp
qed

lemma str_nat_inj: "str_nat m = str_nat n \<Longrightarrow> m = n"
proof (induction m arbitrary: n rule: less_induct)
  case (less m)
  show ?case
  proof (cases "m < 10")
    case m: True
    then have sm: "str_nat m = [digit_char m]" by (subst str_nat.simps) simp
    show ?thesis
    proof (cases "n < 10")
      case True
      then have "str_nat n = [digit_char n]" by (subst str_nat.simps) simp
      with sm less.prems have "digit_char m = digit_char n" by simp
      with m True show ?thesis by (rule digit_char_inj)
    next
      case False
      then have "2 \<le> length (str_nat n)" by (simp add: str_nat_length_ge2)
      with sm less.prems show ?thesis by simp
    qed
  next
    case m: False
    then have sm: "str_nat m = str_nat (m div 10) @ [digit_char (m mod 10)]"
      by (subst str_nat.simps) simp
    show ?thesis
    proof (cases "n < 10")
      case True
      then have "str_nat n = [digit_char n]" by (subst str_nat.simps) simp
      moreover have "2 \<le> length (str_nat m)" using m by (simp add: str_nat_length_ge2)
      ultimately show ?thesis using less.prems by simp
    next
      case False
      then have "str_nat n = str_nat (n div 10) @ [digit_char (n mod 10)]"
        by (subst str_nat.simps) simp
      with sm less.prems have a: "str_nat (m div 10) = str_nat (n div 10)"
        and b: "digit_char (m mod 10) = digit_char (n mod 10)" by simp_all
      have "m div 10 < m" using m by simp
      from less.IH [OF this a] have d: "m div 10 = n div 10" .
      have "m mod 10 = n mod 10" using b by (intro digit_char_inj) simp_all
      with d show ?thesis by (metis div_mult_mod_eq)
    qed
  qed
qed

lemma digit_char_not_minus: "d < 10 \<Longrightarrow> digit_char d \<noteq> CHR ''-''"
proof -
  assume "d < 10"
  then have "d \<in> {0, 1, 2, 3, 4, 5, 6, 7, 8, 9}" by auto
  then show ?thesis unfolding digit_char_def by auto
qed

lemma str_nat_hd: "hd (str_nat n) \<noteq> CHR ''-''"
proof (induction n rule: less_induct)
  case (less n)
  show ?case
  proof (cases "n < 10")
    case True
    then have "str_nat n = [digit_char n]" by (subst str_nat.simps) simp
    with True show ?thesis by (simp add: digit_char_not_minus)
  next
    case False
    then have "str_nat n = str_nat (n div 10) @ [digit_char (n mod 10)]"
      by (subst str_nat.simps) simp
    moreover have "n div 10 < n" using False by simp
    ultimately show ?thesis using less.IH [of "n div 10"] str_nat_nonempty [of "n div 10"]
      by simp
  qed
qed

lemma str_int_inj: "str_int i = str_int j \<Longrightarrow> i = j"
proof -
  assume e: "str_int i = str_int j"
  have neg: "CHR ''-'' # xs \<noteq> str_nat n" for xs n
    using str_nat_hd [of n] by (cases "str_nat n") auto
  show ?thesis
  proof (cases "i < 0")
    case i: True
    show ?thesis
    proof (cases "j < 0")
      case True
      with i e have "str_nat (nat (- i)) = str_nat (nat (- j))" by (simp add: str_int_def)
      then have "nat (- i) = nat (- j)" by (rule str_nat_inj)
      with i True show ?thesis by simp
    next
      case False
      with i e neg show ?thesis by (simp add: str_int_def)
    qed
  next
    case i: False
    show ?thesis
    proof (cases "j < 0")
      case True
      with i e neg [of "str_nat (nat (- j))" "nat i"] show ?thesis by (simp add: str_int_def)
    next
      case False
      with i e have "str_nat (nat i) = str_nat (nat j)" by (simp add: str_int_def)
      then have "nat i = nat j" by (rule str_nat_inj)
      with i False show ?thesis by simp
    qed
  qed
qed

subsection \<open>What a message does to the table\<close>

lemma emit_fields [simp]:
  "pending_requests (emit e st) = pending_requests st"
  "connected (emit e st) = connected st"
  "broker (emit e st) = broker st"
  "port (emit e st) = port st"
  "trace (emit e st) = trace st @ [e]"
  by (simp_all add: emit_def)

lemma store_fields [simp]:
  "pending_requests (store k v st) = (pending_requests st)(k \<mapsto> v)"
  "connected (store k v st) = connected st"
  "trace (store k v st) = trace st @ [Store k v]"
  by (simp_all add: store_def)

lemma id_in_obj: "(''id'' \<in> fst ` set kvs) = (''id'' \<in> dom (map_of kvs))"
  by (simp add: dom_map_of_conv_image_fst)

text \<open>What the try block does to the table.\<close>

lemma on_message_try_pending:
  "pending_requests (snd (on_message_try loads m st)) =
     (case target_id loads m of
        None \<Rightarrow> pending_requests st
      | Some s \<Rightarrow>
          (case loads (payload m) of
             Inr data \<Rightarrow>
               if pending_requests st s \<noteq> None then (pending_requests st)(s \<mapsto> data)
               else pending_requests st
           | Inl e \<Rightarrow> pending_requests st))"
proof (cases "loads (payload m)")
  case (Inl e)
  then show ?thesis by (simp add: on_message_try_def target_id_def)
next
  case (Inr data)
  show ?thesis
  proof (cases "startswith (topic m) ''v1/devices/me/rpc/response/''")
    case False
    with Inr show ?thesis by (simp add: on_message_try_def target_id_def)
  next
    case True
    show ?thesis
    proof (cases data)
      case (JObj kvs)
      show ?thesis
      proof (cases "map_of kvs ''id''")
        case None
        then have "''id'' \<notin> fst ` set kvs" by (simp add: id_in_obj domIff)
        with None Inr True JObj show ?thesis
          by (simp add: on_message_try_def target_id_def)
      next
        case (Some k)
        then have "''id'' \<in> fst ` set kvs" by (simp add: id_in_obj domIff)
        with Some Inr True JObj show ?thesis
          by (cases k) (simp_all add: on_message_try_def target_id_def)
      qed
    qed (use Inr True in \<open>simp_all add: on_message_try_def target_id_def Let_def split: bool.splits\<close>)
  qed
qed

lemma on_message_pending:
  "pending_requests (on_message loads m st) =
     (case target_id loads m of
        None \<Rightarrow> pending_requests st
      | Some s \<Rightarrow>
          (case loads (payload m) of
             Inr data \<Rightarrow>
               if pending_requests st s \<noteq> None then (pending_requests st)(s \<mapsto> data)
               else pending_requests st
           | Inl e \<Rightarrow> pending_requests st))"
proof -
  have "pending_requests (on_message loads m st) = pending_requests (snd (on_message_try loads m st))"
    by (simp add: on_message_def split: prod.splits option.splits exn.splits)
  then show ?thesis by (simp only: on_message_try_pending)
qed

lemma on_message_try_connected: "connected (snd (on_message_try loads m st)) = connected st"
  by (simp add: on_message_try_def Let_def split: sum.splits bool.splits json.splits option.splits)

lemma on_message_connected: "connected (on_message loads m st) = connected st"
proof -
  have "connected (on_message loads m st) = connected (snd (on_message_try loads m st))"
    by (simp add: on_message_def split: prod.splits option.splits exn.splits)
  then show ?thesis by (simp only: on_message_try_connected)
qed

lemma target_id_data:
  "target_id loads m = Some s \<Longrightarrow>
     \<exists>kvs. loads (payload m) = Inr (JObj kvs) \<and> map_of kvs ''id'' = Some (JStr s)"
  by (auto simp: target_id_def split: if_splits sum.splits json.splits option.splits)

lemma deliver_Nil [simp]: "deliver loads [] st = st"
  by (simp add: deliver_def)

lemma deliver_Cons [simp]: "deliver loads (m # ms) st = deliver loads ms (on_message loads m st)"
  by (simp add: deliver_def)

lemma deliver_append: "deliver loads (xs @ ys) st = deliver loads ys (deliver loads xs st)"
  by (simp add: deliver_def)

lemma deliver_connected: "connected (deliver loads ms st) = connected st"
  by (induction ms arbitrary: st) (simp_all add: on_message_connected)

lemma on_message_dom: "dom (pending_requests (on_message loads m st)) = dom (pending_requests st)"
  by (auto simp: on_message_pending split: option.splits sum.splits if_splits)

lemma deliver_dom: "dom (pending_requests (deliver loads ms st)) = dom (pending_requests st)"
  by (induction ms arbitrary: st) (simp_all add: on_message_dom)

lemma on_message_other:
  "target_id loads m \<noteq> Some k \<Longrightarrow> pending_requests (on_message loads m st) k = pending_requests st k"
  by (auto simp: on_message_pending split: option.splits sum.splits)

lemma deliver_other:
  "\<forall>m \<in> set ms. target_id loads m \<noteq> Some k \<Longrightarrow>
     pending_requests (deliver loads ms st) k = pending_requests st k"
  by (induction ms arbitrary: st) (simp_all add: on_message_other)

lemma on_message_hit:
  "target_id loads m = Some k \<Longrightarrow> loads (payload m) = Inr data \<Longrightarrow> pending_requests st k \<noteq> None \<Longrightarrow>
     pending_requests (on_message loads m st) k = Some data"
  by (simp add: on_message_pending)

lemma deliver_hit:
  assumes "target_id loads m = Some k" and "loads (payload m) = Inr data"
    and "\<forall>m' \<in> set after. target_id loads m' \<noteq> Some k"
    and "pending_requests st k \<noteq> None"
  shows "pending_requests (deliver loads (before @ m # after) st) k = Some data"
proof -
  have "k \<in> dom (pending_requests (deliver loads before st))"
    using assms(4) by (simp add: deliver_dom domIff)
  then have "pending_requests (deliver loads before st) k \<noteq> None"
    by (simp add: domIff)
  then have "pending_requests (on_message loads m (deliver loads before st)) k = Some data"
    using assms(1,2) by (rule on_message_hit [rotated 2])
  then show ?thesis using assms(3) by (simp add: deliver_append deliver_other)
qed

subsection \<open>The waiting loop\<close>

lemma delete_present:
  "pending_requests st k = Some v \<Longrightarrow>
     delete k st = Inr (emit (Delete k) (st\<lparr>pending_requests := (pending_requests st)(k := None)\<rparr>))"
  by (simp add: delete_def)

lemma deliver_keeps_empty:
  assumes "pending_requests st k = Some JNull"
    and "\<forall>m \<in> set ms. target_id loads m \<noteq> Some k"
  shows "pending_requests (deliver loads ms st) k = Some JNull"
  using assms by (simp add: deliver_other)

text \<open>The loop while nothing addressed to the id arrives: it goes on to the next test.\<close>

lemma wait_loop_skip:
  assumes "pending_requests st k = Some JNull"
    and "\<forall>(t, ms) \<in> set pre. t - start < timeout \<and> (\<forall>m \<in> set ms. target_id loads m \<noteq> Some k)"
  shows "wait_loop loads k start timeout (pre @ rest) st =
           wait_loop loads k start timeout rest (deliver loads (concat (map snd pre)) st)"
  using assms
proof (induction pre arbitrary: st)
  case Nil
  then show ?case by simp
next
  case (Cons p pre)
  obtain t ms where p: "p = (t, ms)" by (cases p)
  from Cons.prems p have t: "t - start < timeout"
    and ms: "\<forall>m \<in> set ms. target_id loads m \<noteq> Some k" by simp_all
  have e: "pending_requests (deliver loads ms st) k = Some JNull"
    using Cons.prems(1) ms by (rule deliver_keeps_empty)
  have "wait_loop loads k start timeout ((p # pre) @ rest) st =
          wait_loop loads k start timeout (pre @ rest) (deliver loads ms st)"
    using p t e by simp
  also have "\<dots> = wait_loop loads k start timeout rest
                     (deliver loads (concat (map snd pre)) (deliver loads ms st))"
    using e Cons.prems(2) by (intro Cons.IH) simp_all
  finally show ?case using p by (simp add: deliver_append)
qed

lemma wait_loop_expire:
  assumes "pending_requests st k = Some v" and "\<not> now - start < timeout"
  shows "wait_loop loads k start timeout ((now, arrived) # rest) st =
           Some (Inr JNull,
                 emit (Print (L_timeout k))
                   (emit (Delete k)
                     ((deliver loads arrived st)
                        \<lparr>pending_requests := (pending_requests (deliver loads arrived st))(k := None)\<rparr>)))"
proof -
  have "k \<in> dom (pending_requests (deliver loads arrived st))"
    using assms(1) by (simp add: deliver_dom domIff)
  then obtain w where "pending_requests (deliver loads arrived st) k = Some w" by auto
  then show ?thesis using assms(2) by (simp add: delete_present Let_def)
qed

lemma wait_loop_collect:
  assumes "pending_requests st k \<noteq> None" and "now - start < timeout"
    and "target_id loads m = Some k" and "loads (payload m) = Inr data"
    and "\<forall>m' \<in> set after. target_id loads m' \<noteq> Some k"
  shows "wait_loop loads k start timeout ((now, before @ m # after) # rest) st =
           Some (Inr data,
                 emit (Delete k)
                   ((deliver loads (before @ m # after) st)
                      \<lparr>pending_requests :=
                         (pending_requests (deliver loads (before @ m # after) st))(k := None)\<rparr>))"
proof -
  have got: "pending_requests (deliver loads (before @ m # after) st) k = Some data"
    using assms(3,4,5,1) by (rule deliver_hit)
  obtain kvs where "loads (payload m) = Inr (JObj kvs)"
    using target_id_data [OF assms(3)] by blast
  with assms(4) have "data \<noteq> JNull" by auto
  with got assms(2) show ?thesis by (simp add: delete_present Let_def del: deliver_Cons)
qed

lemma send_request_fields:
  "pending_requests (send_request cmd params True now st) =
     (pending_requests st)(request_id_at now \<mapsto> JNull)"
  "connected (send_request cmd params w now st) = connected st"
  "trace (send_request cmd params True now st) =
     trace st @ [Store (request_id_at now) JNull,
                 Publish (rpc_request_prefix @ ''/'' @ request_id_at now)
                   (JObj [(''method'', JStr cmd), (''params'', if truthy params then params else JObj [])]),
                 Print (L_sent cmd (request_id_at now))]"
  by (simp_all add: send_request_def Let_def)

lemma sample_client_fields [simp]:
  "connected sample_client" "pending_requests sample_client = Map.empty"
  "trace sample_client = []"
  by (simp_all add: sample_client_def init_def)

lemma request_id_1000 [simp]: "request_id_at 1000 = ''req-1000''"
proof -
  have "str_int 1000 = ''1000''" unfolding str_int_def by code_simp
  then show ?thesis by (simp add: request_id_at_def)
qed

subsection \<open>Claims about \<open>send_command\<close>\<close>

text \<open>
  Claim C10. Called on a client that is not connected, \<open>send_command\<close> returns \<open>None\<close>
  whatever the schedule (it does not wait), and the client is as before except for the
  printed line: nothing is published and \<open>pending_requests\<close> is unchanged. A call that
  runs into its timeout returns \<open>None\<close> as well, so the returned value is the same in
  both cases.
\<close>

theorem send_command_not_connected:
  assumes "\<not> connected st"
    and "connected st'" and "polls sch' = (now, arrived) # rest"
    and "\<not> now - clock_start sch' < timeout'"
  shows "send_command loads cmd params w timeout sch st =
           Some (Inr JNull, st\<lparr>trace := trace st @ [Print L_not_connected]\<rparr>)
       \<and> (\<exists>st''. send_command loads cmd' params' True timeout' sch' st' = Some (Inr JNull, st''))"
proof
  show "send_command loads cmd params w timeout sch st =
          Some (Inr JNull, st\<lparr>trace := trace st @ [Print L_not_connected]\<rparr>)"
    using assms(1) by (simp add: send_command_def emit_def)
next
  have "pending_requests (send_request cmd' params' True (clock_id sch') st')
          (request_id_at (clock_id sch')) = Some JNull"
    by (simp add: send_request_fields)
  from wait_loop_expire [OF this assms(4)] show
    "\<exists>st''. send_command loads cmd' params' True timeout' sch' st' = Some (Inr JNull, st'')"
    using assms(2,3) by (simp add: send_command_def Let_def)
qed

theorem send_command_not_connected_witness:
  "\<not> connected (init ''broker'' 1883) \<and> connected sample_client
   \<and> send_command sample_loads ''reboot'' JNull True 30
        \<lparr>clock_id = 1000, clock_start = 1, polls = []\<rparr> (init ''broker'' 1883) =
      Some (Inr JNull, (init ''broker'' 1883)\<lparr>trace := [Print L_not_connected]\<rparr>)
   \<and> (\<exists>st''. send_command sample_loads ''reboot'' JNull True 30
        \<lparr>clock_id = 1000, clock_start = 1, polls = [(31, [])]\<rparr> sample_client = Some (Inr JNull, st''))"
  using send_command_not_connected [of "init ''broker'' 1883" sample_client
      "\<lparr>clock_id = 1000, clock_start = 1, polls = [(31, [])]\<rparr>" 31 "[]" "[]" 30
      sample_loads "''reboot''" JNull True 30 "\<lparr>clock_id = 1000, clock_start = 1, polls = []\<rparr>"
      "''reboot''" JNull]
  by (simp add: init_def)

lemma sample_loads_simps [simp]:
  "sample_loads ''A'' = Inr (JObj [(''id'', JStr ''req-1000''), (''status'', JStr ''success'')])"
  "sample_loads ''B'' = Inr (JObj [(''id'', JStr ''req-1000''), (''status'', JStr ''error'')])"
  "sample_loads ''C'' = Inr (JArr [JStr ''id''])"
  "sample_loads ''E'' = Inr (JObj [(''id'', JStr ''req-2000'')])"
  "sample_loads ''junk'' = Inl JSONDecodeError"
  by (simp_all add: sample_loads_def)

lemma target_id_samples [simp]:
  "target_id sample_loads \<lparr>topic = ''v1/devices/me/rpc/response/req-1000'', payload = ''A''\<rparr>
     = Some ''req-1000''"
  "target_id sample_loads \<lparr>topic = ''v1/devices/me/rpc/response/req-1000'', payload = ''B''\<rparr>
     = Some ''req-1000''"
  "target_id sample_loads \<lparr>topic = ''v1/devices/me/rpc/response/req-7'', payload = ''A''\<rparr>
     = Some ''req-1000''"
  "target_id sample_loads \<lparr>topic = ''v1/devices/me/telemetry'', payload = ''A''\<rparr> = None"
  "target_id sample_loads \<lparr>topic = t, payload = ''junk''\<rparr> = None"
  by (simp_all add: target_id_def startswith_def)

text \<open>
  Claim C1, amended. A connected client sends a command and waits, with only the network
  thread's \<open>_on_message\<close> running beside it. A response whose \<open>id\<close> is the request's
  id is handled before a look at the table whose deadline test (line 128) still holds, no
  earlier look had one, and no other message for the id is handled between it and that
  look. Then \<open>send_command\<close> returns the decoded payload as it is, and the id is no
  longer a key of \<open>pending_requests\<close>.
\<close>

theorem send_command_response:
  assumes "connected st"
    and "polls sch = pre @ (now, before @ m # after) # rest"
    and "\<forall>(t, ms) \<in> set pre. t - clock_start sch < timeout \<and>
           (\<forall>m' \<in> set ms. target_id loads m' \<noteq> Some (request_id_at (clock_id sch)))"
    and "now - clock_start sch < timeout"
    and "target_id loads m = Some (request_id_at (clock_id sch))"
    and "loads (payload m) = Inr data"
    and "\<forall>m' \<in> set after. target_id loads m' \<noteq> Some (request_id_at (clock_id sch))"
  shows "\<exists>st'. send_command loads cmd params True timeout sch st = Some (Inr data, st')
           \<and> pending_requests st' (request_id_at (clock_id sch)) = None"
proof -
  let ?k = "request_id_at (clock_id sch)"
  let ?st1 = "send_request cmd params True (clock_id sch) st"
  let ?st2 = "deliver loads (concat (map snd pre)) ?st1"
  have e1: "pending_requests ?st1 ?k = Some JNull" by (simp add: send_request_fields)
  have "pending_requests ?st2 ?k = Some JNull"
    using e1 assms(3) by (intro deliver_keeps_empty) auto
  then have e2: "pending_requests ?st2 ?k \<noteq> None" by simp
  have "send_command loads cmd params True timeout sch st =
          wait_loop loads ?k (clock_start sch) timeout (pre @ (now, before @ m # after) # rest) ?st1"
    using assms(1,2) by (simp add: send_command_def Let_def)
  also have "\<dots> = wait_loop loads ?k (clock_start sch) timeout
                     ((now, before @ m # after) # rest) ?st2"
    using e1 assms(3) by (rule wait_loop_skip)
  finally show ?thesis
    by (simp only: wait_loop_collect [OF e2 assms(4,5,6,7)]) simp
qed

theorem send_command_response_witness:
  "connected sample_client \<and>
   (\<exists>st'. send_command sample_loads ''get_gps'' JNull True 30
       \<lparr>clock_id = 1000, clock_start = 1,
          polls = [(1, []),
                   (11 / 10, [\<lparr>topic = ''v1/devices/me/telemetry'', payload = ''A''\<rparr>,
                              \<lparr>topic = ''v1/devices/me/rpc/response/req-1000'', payload = ''A''\<rparr>,
                              \<lparr>topic = ''v1/devices/me/attributes'', payload = ''junk''\<rparr>])]\<rparr>
       sample_client =
         Some (Inr (JObj [(''id'', JStr ''req-1000''), (''status'', JStr ''success'')]), st')
      \<and> pending_requests st' ''req-1000'' = None)"
  using send_command_response [of sample_client
      "\<lparr>clock_id = 1000, clock_start = 1,
          polls = [(1, []),
                   (11 / 10, [\<lparr>topic = ''v1/devices/me/telemetry'', payload = ''A''\<rparr>,
                              \<lparr>topic = ''v1/devices/me/rpc/response/req-1000'', payload = ''A''\<rparr>,
                              \<lparr>topic = ''v1/devices/me/attributes'', payload = ''junk''\<rparr>])]\<rparr>"
      "[(1, [])]" "11 / 10" "[\<lparr>topic = ''v1/devices/me/telemetry'', payload = ''A''\<rparr>]"
      "\<lparr>topic = ''v1/devices/me/rpc/response/req-1000'', payload = ''A''\<rparr>"
      "[\<lparr>topic = ''v1/devices/me/attributes'', payload = ''junk''\<rparr>]" "[]" 30 sample_loads
      "JObj [(''id'', JStr ''req-1000''), (''status'', JStr ''success'')]" "''get_gps''" JNull]
  by simp

lemma startswith_append [simp]: "startswith (p @ s) p"
  by (simp add: startswith_def)

lemma target_id_obj:
  "loads p = Inr (JObj kvs) \<Longrightarrow> map_of kvs ''id'' = Some (JStr k) \<Longrightarrow>
     target_id loads \<lparr>topic = ''v1/devices/me/rpc/response/'' @ seg, payload = p\<rparr> = Some k"
  using startswith_append [of "''v1/devices/me/rpc/response/''" seg]
  by (simp add: target_id_def del: startswith_append)

text \<open>
  Claim C2 as stated fails. Two responses with the id \<open>req-1000\<close> arrive one after
  the other before \<open>send_command\<close> looks at the table: the first is stored, the second
  is stored over it, and \<open>send_command\<close> returns the second.
\<close>

theorem second_response_replaces_first:
  "map_option fst
     (send_command sample_loads ''get_gps'' JNull True 30
        \<lparr>clock_id = 1000, clock_start = 1,
           polls = [(1, [\<lparr>topic = ''v1/devices/me/rpc/response/req-1000'', payload = ''A''\<rparr>,
                         \<lparr>topic = ''v1/devices/me/rpc/response/req-1000'', payload = ''B''\<rparr>])]\<rparr>
        sample_client)
   = Some (Inr (JObj [(''id'', JStr ''req-1000''), (''status'', JStr ''error'')]))"
  by (simp add: send_command_def Let_def send_request_fields on_message_pending delete_def)

text \<open>
  Claim C2, amended. \<open>_on_message\<close> stores a response under its id whenever the id is a
  key of \<open>pending_requests\<close>, whether the slot is still empty or already holds an earlier
  response (the last one written is the one \<open>send_command\<close> finds); when the id is not
  a key, as after \<open>send_command\<close> has deleted it, the table is left as it is. No
  exception leaves the handler in either case.
\<close>

theorem response_for_id:
  assumes "target_id loads m = Some k" and "loads (payload m) = Inr data"
  shows "pending_requests (on_message loads m st) =
           (if pending_requests st k = None then pending_requests st
            else (pending_requests st)(k \<mapsto> data))"
  using assms by (simp add: on_message_pending)

theorem response_for_id_witness:
  "pending_requests
     (on_message sample_loads \<lparr>topic = ''v1/devices/me/rpc/response/req-1000'', payload = ''B''\<rparr>
        (store ''req-1000'' (JObj [(''id'', JStr ''req-1000''), (''status'', JStr ''success'')])
           sample_client))
     ''req-1000'' = Some (JObj [(''id'', JStr ''req-1000''), (''status'', JStr ''error'')])
   \<and> pending_requests
     (on_message sample_loads \<lparr>topic = ''v1/devices/me/rpc/response/req-1000'', payload = ''B''\<rparr>
        sample_client) = Map.empty"
  using response_for_id [of sample_loads
      "\<lparr>topic = ''v1/devices/me/rpc/response/req-1000'', payload = ''B''\<rparr>" "''req-1000''"
      "JObj [(''id'', JStr ''req-1000''), (''status'', JStr ''error'')]"
      "store ''req-1000'' (JObj [(''id'', JStr ''req-1000''), (''status'', JStr ''success'')])
         sample_client"]
    response_for_id [of sample_loads
      "\<lparr>topic = ''v1/devices/me/rpc/response/req-1000'', payload = ''B''\<rparr>" "''req-1000''"
      "JObj [(''id'', JStr ''req-1000''), (''status'', JStr ''error'')]" sample_client]
  by simp

text \<open>
  Claim C8 as stated fails. A response arrives on the topic that ends in \<open>req-7\<close> while
  its payload says \<open>id = req-1000\<close>: the slot of \<open>req-1000\<close> is filled.
\<close>

theorem response_on_other_topic_resolves:
  "pending_requests
     (on_message sample_loads \<lparr>topic = ''v1/devices/me/rpc/response/req-7'', payload = ''A''\<rparr>
        (store ''req-1000'' JNull sample_client))
     ''req-1000'' = Some (JObj [(''id'', JStr ''req-1000''), (''status'', JStr ''success'')])"
  by (simp add: on_message_pending)

text \<open>
  Claim C8, amended. On any topic that starts with the response prefix, whatever follows
  the prefix, a decoded dict with a string under \<open>id\<close> fills the slot of that id when it
  is pending and changes nothing otherwise; the topic's last segment is not compared with
  the payload's id, and no slot other than the one the payload names is touched.
\<close>

theorem response_routed_by_payload_id:
  assumes "loads p = Inr (JObj kvs)" and "map_of kvs ''id'' = Some (JStr k)"
  shows "pending_requests
           (on_message loads \<lparr>topic = ''v1/devices/me/rpc/response/'' @ seg, payload = p\<rparr> st) =
           (if pending_requests st k = None then pending_requests st
            else (pending_requests st)(k \<mapsto> JObj kvs))"
  using assms target_id_obj [of loads p kvs k seg] by (simp add: on_message_pending)

theorem response_routed_by_payload_id_witness:
  "pending_requests
     (on_message sample_loads \<lparr>topic = ''v1/devices/me/rpc/response/'' @ ''req-7'', payload = ''A''\<rparr>
        (store ''req-7'' JNull (store ''req-1000'' JNull sample_client))) =
     [''req-7'' \<mapsto> JNull,
      ''req-1000'' \<mapsto> JObj [(''id'', JStr ''req-1000''), (''status'', JStr ''success'')]]"
  using response_routed_by_payload_id [of sample_loads "''A''"
      "[(''id'', JStr ''req-1000''), (''status'', JStr ''success'')]" "''req-1000''" "''req-7''"
      "store ''req-7'' JNull (store ''req-1000'' JNull sample_client)"]
  by (simp add: fun_upd_twist)

text \<open>
  Claim C5 as stated fails. The slot of \<open>req-1000\<close> holds a response when a request
  made in millisecond 1000 (id \<open>req-1000\<close> again) is registered: nothing is raised, the
  slot is reset to \<open>None\<close> and the request is published.
\<close>

theorem registration_overwrites:
  "pending_requests
     (send_request ''get_gps'' JNull True 1000
        (store ''req-1000'' (JObj [(''id'', JStr ''req-1000''), (''status'', JStr ''success'')])
           sample_client))
     ''req-1000'' = Some JNull
   \<and> trace
     (send_request ''get_gps'' JNull True 1000
        (store ''req-1000'' (JObj [(''id'', JStr ''req-1000''), (''status'', JStr ''success'')])
           sample_client)) =
     [Store ''req-1000'' (JObj [(''id'', JStr ''req-1000''), (''status'', JStr ''success'')]),
      Store ''req-1000'' JNull,
      Publish ''v1/devices/me/rpc/request/req-1000''
        (JObj [(''method'', JStr ''get_gps''), (''params'', JObj [])]),
      Print (L_sent ''get_gps'' ''req-1000'')]"
  by (simp add: send_request_fields rpc_request_prefix_def)

text \<open>
  Claim C5, amended. Registering an id that is already a key of \<open>pending_requests\<close>
  overwrites its entry with \<open>None\<close>, whatever it held, leaves the other entries alone,
  and goes on to publish the request and print the sent line; no error is signalled.
\<close>

theorem register_existing_id:
  assumes "pending_requests st (request_id_at now) = Some v"
  shows "pending_requests (send_request cmd params True now st) =
           (pending_requests st)(request_id_at now \<mapsto> JNull)
       \<and> trace (send_request cmd params True now st) =
           trace st @ [Store (request_id_at now) JNull,
                       Publish (rpc_request_prefix @ ''/'' @ request_id_at now)
                         (JObj [(''method'', JStr cmd),
                                (''params'', if truthy params then params else JObj [])]),
                       Print (L_sent cmd (request_id_at now))]"
  by (simp add: send_request_fields)

theorem register_existing_id_witness:
  "pending_requests (store ''req-1000'' (JObj [(''status'', JStr ''success'')]) sample_client)
     (request_id_at 1000) = Some (JObj [(''status'', JStr ''success'')])
   \<and> pending_requests
       (send_request ''get_gps'' JNull True 1000
          (store ''req-1000'' (JObj [(''status'', JStr ''success'')]) sample_client)) =
       [''req-1000'' \<mapsto> JNull]"
  using register_existing_id [of
      "store ''req-1000'' (JObj [(''status'', JStr ''success'')]) sample_client" 1000
      "JObj [(''status'', JStr ''success'')]" "''get_gps''" JNull]
  by simp

lemma on_message_try_trace: "\<exists>ext. trace (snd (on_message_try loads m st)) = trace st @ ext"
  by (simp add: on_message_try_def Let_def split: sum.splits bool.splits json.splits)

lemma on_message_trace: "\<exists>ext. trace (on_message loads m st) = trace st @ ext"
proof -
  obtain ext where e: "trace (snd (on_message_try loads m st)) = trace st @ ext"
    using on_message_try_trace by blast
  obtain x st1 where r: "on_message_try loads m st = (x, st1)" by (cases "on_message_try loads m st")
  with e have "trace st1 = trace st @ ext" by simp
  with r show ?thesis
    by (cases x) (simp_all add: on_message_def split: exn.splits)
qed

lemma deliver_trace: "\<exists>ext. trace (deliver loads ms st) = trace st @ ext"
proof (induction ms arbitrary: st)
  case Nil
  then show ?case by simp
next
  case (Cons m ms)
  obtain e1 where "trace (on_message loads m st) = trace st @ e1"
    using on_message_trace by blast
  moreover obtain e2 where
    "trace (deliver loads ms (on_message loads m st)) = trace (on_message loads m st) @ e2"
    using Cons.IH by blast
  ultimately show ?case by simp
qed

lemma delete_trace: "delete k st = Inr st' \<Longrightarrow> trace st' = trace st @ [Delete k]"
  by (auto simp: delete_def split: if_splits)

lemma wait_loop_trace:
  "wait_loop loads k start timeout ps st = Some (r, st') \<Longrightarrow> \<exists>ext. trace st' = trace st @ ext"
proof (induction ps arbitrary: st)
  case Nil
  then show ?case by simp
next
  case (Cons p ps)
  obtain now arrived where p: "p = (now, arrived)" by (cases p)
  let ?st1 = "deliver loads arrived st"
  obtain e1 where e1: "trace ?st1 = trace st @ e1" using deliver_trace by blast
  show ?case
  proof (cases "now - start < timeout")
    case False
    with Cons.prems p have "\<exists>ext. trace st' = trace ?st1 @ ext"
      by (auto simp: Let_def dest: delete_trace split: sum.splits)
    with e1 show ?thesis by auto
  next
    case True
    show ?thesis
    proof (cases "pending_requests ?st1 k")
      case None
      with Cons.prems p True have "st' = ?st1" by (simp add: Let_def)
      with e1 show ?thesis by simp
    next
      case (Some response)
      show ?thesis
      proof (cases "response = JNull")
        case True
        with Cons.prems p \<open>now - start < timeout\<close> Some
        have "wait_loop loads k start timeout ps ?st1 = Some (r, st')" by (simp add: Let_def)
        then obtain e2 where "trace st' = trace ?st1 @ e2" using Cons.IH by blast
        with e1 show ?thesis by simp
      next
        case False
        with Cons.prems p \<open>now - start < timeout\<close> Some
        have "\<exists>ext. trace st' = trace ?st1 @ ext"
          by (auto simp: Let_def dest: delete_trace split: sum.splits)
        with e1 show ?thesis by auto
      qed
    qed
  qed
qed

text \<open>
  Claim C6. With \<open>wait_response\<close> true, lines 110 to 123 first store the empty slot
  under the new id, then publish the request on the topic of that id, then print; and in
  every run of \<open>send_command\<close> on a connected client that returns, the store of the slot
  comes directly before the publish in the record of what the call did.
\<close>

theorem register_before_publish:
  "trace (send_request cmd params True now st) =
     trace st @ [Store (request_id_at now) JNull,
                 Publish (rpc_request_prefix @ ''/'' @ request_id_at now)
                   (JObj [(''method'', JStr cmd),
                          (''params'', if truthy params then params else JObj [])]),
                 Print (L_sent cmd (request_id_at now))]
   \<and> (connected st \<longrightarrow> send_command loads cmd params True timeout sch st = Some (r, st') \<longrightarrow>
        (\<exists>ext. trace st' =
           trace st @ Store (request_id_at (clock_id sch)) JNull
             # Publish (rpc_request_prefix @ ''/'' @ request_id_at (clock_id sch))
                 (JObj [(''method'', JStr cmd),
                        (''params'', if truthy params then params else JObj [])])
             # ext))"
proof (intro conjI impI)
  show "trace (send_request cmd params True now st) =
     trace st @ [Store (request_id_at now) JNull,
                 Publish (rpc_request_prefix @ ''/'' @ request_id_at now)
                   (JObj [(''method'', JStr cmd),
                          (''params'', if truthy params then params else JObj [])]),
                 Print (L_sent cmd (request_id_at now))]"
    by (simp add: send_request_fields)
next
  assume c: "connected st"
    and s: "send_command loads cmd params True timeout sch st = Some (r, st')"
  let ?st1 = "send_request cmd params True (clock_id sch) st"
  from c s have "wait_loop loads (request_id_at (clock_id sch)) (clock_start sch) timeout
                   (polls sch) ?st1 = Some (r, st')"
    by (simp add: send_command_def Let_def)
  then obtain ext where "trace st' = trace ?st1 @ ext" using wait_loop_trace by blast
  then show "\<exists>ext. trace st' =
           trace st @ Store (request_id_at (clock_id sch)) JNull
             # Publish (rpc_request_prefix @ ''/'' @ request_id_at (clock_id sch))
                 (JObj [(''method'', JStr cmd),
                        (''params'', if truthy params then params else JObj [])])
             # ext"
    by (simp add: send_request_fields)
qed

theorem register_before_publish_witness:
  "connected sample_client
   \<and> send_command sample_loads ''get_gps'' JNull True 30
       \<lparr>clock_id = 1000, clock_start = 1, polls = [(31, [])]\<rparr> sample_client =
     Some (Inr JNull,
           sample_client\<lparr>trace :=
             [Store ''req-1000'' JNull,
              Publish ''v1/devices/me/rpc/request/req-1000''
                (JObj [(''method'', JStr ''get_gps''), (''params'', JObj [])]),
              Print (L_sent ''get_gps'' ''req-1000''), Delete ''req-1000'',
              Print (L_timeout ''req-1000'')]\<rparr>)
   \<and> (\<exists>ext. [Store ''req-1000'' JNull,
              Publish ''v1/devices/me/rpc/request/req-1000''
                (JObj [(''method'', JStr ''get_gps''), (''params'', JObj [])]),
              Print (L_sent ''get_gps'' ''req-1000''), Delete ''req-1000'',
              Print (L_timeout ''req-1000'')] =
             Store ''req-1000'' JNull
               # Publish ''v1/devices/me/rpc/request/req-1000''
                   (JObj [(''method'', JStr ''get_gps''), (''params'', JObj [])])
               # ext)"
proof -
  have run: "send_command sample_loads ''get_gps'' JNull True 30
       \<lparr>clock_id = 1000, clock_start = 1, polls = [(31, [])]\<rparr> sample_client =
     Some (Inr JNull,
           sample_client\<lparr>trace :=
             [Store ''req-1000'' JNull,
              Publish ''v1/devices/me/rpc/request/req-1000''
                (JObj [(''method'', JStr ''get_gps''), (''params'', JObj [])]),
              Print (L_sent ''get_gps'' ''req-1000''), Delete ''req-1000'',
              Print (L_timeout ''req-1000'')]\<rparr>)"
    by (simp add: send_command_def send_request_def Let_def delete_def store_def emit_def
        rpc_request_prefix_def sample_client_def init_def)
  show ?thesis
    using run register_before_publish [of "''get_gps''" JNull 1000 sample_client sample_loads 30
        "\<lparr>clock_id = 1000, clock_start = 1, polls = [(31, [])]\<rparr>" "Inr JNull"
        "sample_client\<lparr>trace :=
             [Store ''req-1000'' JNull,
              Publish ''v1/devices/me/rpc/request/req-1000''
                (JObj [(''method'', JStr ''get_gps''), (''params'', JObj [])]),
              Print (L_sent ''get_gps'' ''req-1000''), Delete ''req-1000'',
              Print (L_timeout ''req-1000'')]\<rparr>"]
    by (simp add: rpc_request_prefix_def)
qed

lemma delete_removed: "delete k st = Inr st' \<Longrightarrow> pending_requests st' k = None"
  by (auto simp: delete_def split: if_splits)

lemma wait_loop_removed:
  "wait_loop loads k start timeout ps st = Some (Inr v, st') \<Longrightarrow> pending_requests st' k = None"
proof (induction ps arbitrary: st)
  case Nil
  then show ?case by simp
next
  case (Cons p ps)
  obtain now arrived where p: "p = (now, arrived)" by (cases p)
  let ?st1 = "deliver loads arrived st"
  show ?case
  proof (cases "now - start < timeout")
    case False
    with Cons.prems p show ?thesis
      by (auto simp: Let_def dest: delete_removed split: sum.splits)
  next
    case True
    show ?thesis
    proof (cases "pending_requests ?st1 k")
      case None
      with Cons.prems p True show ?thesis by (simp add: Let_def)
    next
      case (Some response)
      show ?thesis
      proof (cases "response = JNull")
        case True
        with Cons.prems p \<open>now - start < timeout\<close> Some
        have "wait_loop loads k start timeout ps ?st1 = Some (Inr v, st')" by (simp add: Let_def)
        then show ?thesis by (rule Cons.IH)
      next
        case False
        with Cons.prems p \<open>now - start < timeout\<close> Some show ?thesis
          by (auto simp: Let_def dest: delete_removed split: sum.splits)
      qed
    qed
  qed
qed

lemma request_id_2000 [simp]: "request_id_at 2000 = ''req-2000''"
proof -
  have "str_int 2000 = ''2000''" unfolding str_int_def by code_simp
  then show ?thesis by (simp add: request_id_at_def)
qed

text \<open>
  Claim C3 as stated fails. A call with the id \<open>req-1000\<close> and a call with the id
  \<open>req-2000\<close> both run into their timeout: each returns \<open>None\<close>, the same value, with
  no id in it.
\<close>

theorem timeout_returns_none_for_every_id:
  "map_option fst
     (send_command sample_loads ''reboot'' (JObj [(''delay_ms'', JInt 5000)]) True 30
        \<lparr>clock_id = 1000, clock_start = 1, polls = [(1, []), (31, [])]\<rparr> sample_client)
     = Some (Inr JNull)
   \<and> map_option fst
     (send_command sample_loads ''reboot'' (JObj [(''delay_ms'', JInt 5000)]) True 30
        \<lparr>clock_id = 2000, clock_start = 2, polls = [(2, []), (32, [])]\<rparr> sample_client)
     = Some (Inr JNull)"
  by (simp add: send_command_def Let_def send_request_fields delete_def)

text \<open>
  Claim C3, amended. A connected client sends a command and waits, with only the network
  thread's \<open>_on_message\<close> running beside it. While the deadline test at line 128 holds,
  no message addressed to the request's id is handled; then the test fails.
  \<open>send_command\<close> returns \<open>None\<close>, the id is no longer a key of
  \<open>pending_requests\<close>, and the last thing the call does is print the timeout line,
  which names the id: the id is in the printed line, not in the returned value. Moreover,
  whenever \<open>send_command\<close> returns a value at all on a connected client, with a response
  or with \<open>None\<close>, the id is no longer a key of \<open>pending_requests\<close>.
\<close>

theorem send_command_timeout:
  assumes "connected st"
    and "polls sch = pre @ (now, arrived) # rest"
    and "\<forall>(t, ms) \<in> set pre. t - clock_start sch < timeout \<and>
           (\<forall>m \<in> set ms. target_id loads m \<noteq> Some (request_id_at (clock_id sch)))"
    and "\<not> now - clock_start sch < timeout"
  shows "(\<exists>st'. send_command loads cmd params True timeout sch st = Some (Inr JNull, st')
           \<and> pending_requests st' (request_id_at (clock_id sch)) = None
           \<and> last (trace st') = Print (L_timeout (request_id_at (clock_id sch))))
       \<and> (send_command loads cmd params True timeout2 sch2 st = Some (Inr v, st2) \<longrightarrow>
            pending_requests st2 (request_id_at (clock_id sch2)) = None)"
proof
  let ?k = "request_id_at (clock_id sch)"
  let ?st1 = "send_request cmd params True (clock_id sch) st"
  let ?st2 = "deliver loads (concat (map snd pre)) ?st1"
  have e1: "pending_requests ?st1 ?k = Some JNull" by (simp add: send_request_fields)
  have e2: "pending_requests ?st2 ?k = Some JNull"
    using e1 assms(3) by (intro deliver_keeps_empty) auto
  have "send_command loads cmd params True timeout sch st =
          wait_loop loads ?k (clock_start sch) timeout (pre @ (now, arrived) # rest) ?st1"
    using assms(1,2) by (simp add: send_command_def Let_def)
  also have "\<dots> = wait_loop loads ?k (clock_start sch) timeout ((now, arrived) # rest) ?st2"
    using e1 assms(3) by (rule wait_loop_skip)
  finally show "\<exists>st'. send_command loads cmd params True timeout sch st = Some (Inr JNull, st')
           \<and> pending_requests st' (request_id_at (clock_id sch)) = None
           \<and> last (trace st') = Print (L_timeout (request_id_at (clock_id sch)))"
    by (simp only: wait_loop_expire [OF e2 assms(4)]) simp
next
  show "send_command loads cmd params True timeout2 sch2 st = Some (Inr v, st2) \<longrightarrow>
          pending_requests st2 (request_id_at (clock_id sch2)) = None"
  proof
    assume "send_command loads cmd params True timeout2 sch2 st = Some (Inr v, st2)"
    with assms(1) have "wait_loop loads (request_id_at (clock_id sch2)) (clock_start sch2) timeout2
        (polls sch2) (send_request cmd params True (clock_id sch2) st) = Some (Inr v, st2)"
      by (simp add: send_command_def Let_def)
    then show "pending_requests st2 (request_id_at (clock_id sch2)) = None"
      by (rule wait_loop_removed)
  qed
qed

theorem send_command_timeout_witness:
  "connected sample_client \<and>
   (\<exists>st'. send_command sample_loads ''reboot'' (JObj [(''delay_ms'', JInt 5000)]) True 30
       \<lparr>clock_id = 1000, clock_start = 1,
          polls = [(1, []), (11 / 10, [\<lparr>topic = ''v1/devices/me/telemetry'', payload = ''A''\<rparr>]),
                   (31, [])]\<rparr> sample_client = Some (Inr JNull, st')
      \<and> pending_requests st' ''req-1000'' = None
      \<and> last (trace st') = Print (L_timeout ''req-1000''))
   \<and> map_option fst
       (send_command sample_loads ''reboot'' (JObj [(''delay_ms'', JInt 5000)]) True 30
          \<lparr>clock_id = 2000, clock_start = 2,
             polls = [(2, [\<lparr>topic = ''v1/devices/me/rpc/response/req-2000'', payload = ''E''\<rparr>])]\<rparr>
          sample_client) = Some (Inr (JObj [(''id'', JStr ''req-2000'')]))
   \<and> pending_requests
       (snd (the (send_command sample_loads ''reboot'' (JObj [(''delay_ms'', JInt 5000)]) True 30
          \<lparr>clock_id = 2000, clock_start = 2,
             polls = [(2, [\<lparr>topic = ''v1/devices/me/rpc/response/req-2000'', payload = ''E''\<rparr>])]\<rparr>
          sample_client))) ''req-2000'' = None"
proof -
  let ?sch2 = "\<lparr>clock_id = 2000, clock_start = 2,
             polls = [(2, [\<lparr>topic = ''v1/devices/me/rpc/response/req-2000'', payload = ''E''\<rparr>])]\<rparr>"
  let ?run = "send_command sample_loads ''reboot'' (JObj [(''delay_ms'', JInt 5000)]) True 30
                ?sch2 sample_client"
  have t: "target_id sample_loads
             \<lparr>topic = ''v1/devices/me/rpc/response/req-2000'', payload = ''E''\<rparr> = Some ''req-2000''"
    by (simp add: target_id_def startswith_def sample_loads_def)
  have v: "map_option fst ?run = Some (Inr (JObj [(''id'', JStr ''req-2000'')]))"
    by (simp add: send_command_def Let_def send_request_fields delete_def on_message_pending t
        sample_loads_def)
  then have r: "?run = Some (Inr (JObj [(''id'', JStr ''req-2000'')]), snd (the ?run))"
    by (cases ?run) auto
  show ?thesis
    using v r send_command_timeout [of sample_client
      "\<lparr>clock_id = 1000, clock_start = 1,
          polls = [(1, []), (11 / 10, [\<lparr>topic = ''v1/devices/me/telemetry'', payload = ''A''\<rparr>]),
                   (31, [])]\<rparr>"
      "[(1, []), (11 / 10, [\<lparr>topic = ''v1/devices/me/telemetry'', payload = ''A''\<rparr>])]"
      31 "[]" "[]" 30 sample_loads "''reboot''" "JObj [(''delay_ms'', JInt 5000)]" 30 ?sch2
      "JObj [(''id'', JStr ''req-2000'')]" "snd (the ?run)"]
    by simp
qed

text \<open>
  Claim C1 as stated fails. The response to \<open>req-1000\<close> is handled while the caller's
  thread is in its last sleep: the slot is filled, but the next deadline test (31.01 s on
  a clock that started at 1 s, timeout 30 s) fails, the slot is deleted at line 136 and
  \<open>send_command\<close> returns \<open>None\<close>.
\<close>

theorem response_in_last_sleep_lost:
  "map_option fst
     (send_command sample_loads ''get_gps'' JNull True 30
        \<lparr>clock_id = 1000, clock_start = 1,
           polls = [(1, []),
                    (3101 / 100, [\<lparr>topic = ''v1/devices/me/rpc/response/req-1000'', payload = ''A''\<rparr>])]\<rparr>
        sample_client)
   = Some (Inr JNull)
   \<and> map_option (trace \<circ> snd)
     (send_command sample_loads ''get_gps'' JNull True 30
        \<lparr>clock_id = 1000, clock_start = 1,
           polls = [(1, []),
                    (3101 / 100, [\<lparr>topic = ''v1/devices/me/rpc/response/req-1000'', payload = ''A''\<rparr>])]\<rparr>
        sample_client)
   = Some [Store ''req-1000'' JNull,
           Publish ''v1/devices/me/rpc/request/req-1000''
             (JObj [(''method'', JStr ''get_gps''), (''params'', JObj [])]),
           Print (L_sent ''get_gps'' ''req-1000''),
           Print (L_response (JObj [(''id'', JStr ''req-1000''), (''status'', JStr ''success'')])),
           Store ''req-1000'' (JObj [(''id'', JStr ''req-1000''), (''status'', JStr ''success'')]),
           Delete ''req-1000'',
           Print (L_timeout ''req-1000'')]"
  by (simp add: send_command_def send_request_def Let_def delete_def store_def emit_def
      on_message_def on_message_try_def startswith_def rpc_request_prefix_def
      sample_client_def init_def)

text \<open>
  Claim C4 as stated fails. Two calls for which \<open>int(time.time() * 1000)\<close> is 1000
  (two calls that read the same clock value, say) both publish under the id
  \<open>req-1000\<close>, and the table holds a single slot for the two requests.
\<close>

theorem same_reading_same_id:
  "trace (send_request ''get_stats'' JNull True 1000
            (send_request ''get_gps'' JNull True 1000 sample_client)) =
     [Store ''req-1000'' JNull,
      Publish ''v1/devices/me/rpc/request/req-1000''
        (JObj [(''method'', JStr ''get_gps''), (''params'', JObj [])]),
      Print (L_sent ''get_gps'' ''req-1000''),
      Store ''req-1000'' JNull,
      Publish ''v1/devices/me/rpc/request/req-1000''
        (JObj [(''method'', JStr ''get_stats''), (''params'', JObj [])]),
      Print (L_sent ''get_stats'' ''req-1000'')]
   \<and> dom (pending_requests (send_request ''get_stats'' JNull True 1000
            (send_request ''get_gps'' JNull True 1000 sample_client))) = {''req-1000''}"
  by (simp add: send_request_fields rpc_request_prefix_def)

text \<open>
  Claim C4, amended. The id is \<open>req-\<close> followed by the integer that
  \<open>int(time.time() * 1000)\<close> gives, so two requests get distinct ids exactly when these
  integers differ. After two registrations the table holds the slot of the first id and
  the slot of the second; when the two ids are equal that is one slot, which the second
  registration has written over.
\<close>

theorem request_ids_of_two_calls:
  "(request_id_at a = request_id_at b) = (a = b)
   \<and> pending_requests (send_request cmd2 params2 True b (send_request cmd1 params1 True a st)) =
       (pending_requests st)(request_id_at a \<mapsto> JNull, request_id_at b \<mapsto> JNull)"
proof
  show "(request_id_at a = request_id_at b) = (a = b)"
    unfolding request_id_at_def using str_int_inj by auto
next
  show "pending_requests (send_request cmd2 params2 True b (send_request cmd1 params1 True a st)) =
       (pending_requests st)(request_id_at a \<mapsto> JNull, request_id_at b \<mapsto> JNull)"
    by (simp add: send_request_fields)
qed

lemma classify_simps:
  "(classify t = RpcResponse) = startswith t ''v1/devices/me/rpc/response/''"
  "(classify t = Telemetry) = (t = telemetry_topic)"
  "(classify t = Attribute) = (t = attributes_topic)"
  "(classify t = Unrecognized) =
     (\<not> startswith t ''v1/devices/me/rpc/response/'' \<and> t \<noteq> telemetry_topic \<and> t \<noteq> attributes_topic)"
  by (auto simp: classify_def startswith_def telemetry_topic_def attributes_topic_def)

lemma on_message_decode_error:
  "loads (payload m) = Inl e \<Longrightarrow>
     on_message loads m st =
       emit (Print (if e = JSONDecodeError then L_parse_error (payload m) else L_error e)) st"
  by (cases e) (simp_all add: on_message_def on_message_try_def)

lemma on_message_handled:
  "fst (on_message_try loads m st) = Some e \<Longrightarrow>
     on_message loads m st =
       emit (Print (if e = JSONDecodeError then L_parse_error (payload m) else L_error e))
         (snd (on_message_try loads m st))"
  by (cases "on_message_try loads m st"; cases e) (simp_all add: on_message_def)

lemma on_message_table:
  "pending_requests (on_message loads m st) =
     (case loads (payload m) of
        Inr (JObj kvs) \<Rightarrow>
          (case map_of kvs ''id'' of
             Some (JStr k) \<Rightarrow>
               if classify (topic m) = RpcResponse \<and> pending_requests st k \<noteq> None
               then (pending_requests st)(k \<mapsto> JObj kvs) else pending_requests st
           | _ \<Rightarrow> pending_requests st)
      | _ \<Rightarrow> pending_requests st)"
  by (simp add: on_message_pending target_id_def classify_simps
      split: sum.splits json.splits option.splits)

text \<open>
  Claim C7 as stated fails. A payload that holds an \<open>id\<close> and nothing else, neither
  status nor data, arrives on a response topic while \<open>req-2000\<close> is pending: the slot
  is filled with it.
\<close>

theorem bare_id_payload_fills_slot:
  "pending_requests
     (on_message sample_loads \<lparr>topic = ''v1/devices/me/rpc/response/req-2000'', payload = ''E''\<rparr>
        (store ''req-2000'' JNull sample_client))
     ''req-2000'' = Some (JObj [(''id'', JStr ''req-2000'')])"
  by (simp add: on_message_table classify_simps startswith_def)

text \<open>
  Claim C7, amended. Every topic falls into exactly one of the four classes, decided by
  the response prefix and the two fixed topics. An exception that leaves the \<open>try\<close>
  block, a decoding failure or any other, ends in a printed line and not in an exception
  of the handler. The table changes in one case only: the topic is a response topic and
  the payload decodes to a dict with a string under \<open>id\<close> that is a key of the table;
  then that slot is set to the dict, whatever else the dict holds. A payload that does
  not decode, is not a dict, has no string id or names no pending slot leaves every slot
  as it is. \<open>connected\<close> is never changed.
\<close>

theorem on_message_total:
  "(classify t = RpcResponse) = startswith t ''v1/devices/me/rpc/response/''
   \<and> (classify t = Telemetry) = (t = telemetry_topic)
   \<and> (classify t = Attribute) = (t = attributes_topic)
   \<and> (classify t = Unrecognized) =
       (\<not> startswith t ''v1/devices/me/rpc/response/'' \<and> t \<noteq> telemetry_topic
        \<and> t \<noteq> attributes_topic)
   \<and> (loads (payload m) = Inl e \<longrightarrow>
        on_message loads m st =
          emit (Print (if e = JSONDecodeError then L_parse_error (payload m) else L_error e)) st)
   \<and> (fst (on_message_try loads m st) = Some e' \<longrightarrow>
        on_message loads m st =
          emit (Print (if e' = JSONDecodeError then L_parse_error (payload m) else L_error e'))
            (snd (on_message_try loads m st)))
   \<and> pending_requests (on_message loads m st) =
       (case loads (payload m) of
          Inr (JObj kvs) \<Rightarrow>
            (case map_of kvs ''id'' of
               Some (JStr k) \<Rightarrow>
                 if classify (topic m) = RpcResponse \<and> pending_requests st k \<noteq> None
                 then (pending_requests st)(k \<mapsto> JObj kvs) else pending_requests st
             | _ \<Rightarrow> pending_requests st)
        | _ \<Rightarrow> pending_requests st)
   \<and> connected (on_message loads m st) = connected st"
  using classify_simps [of t] on_message_decode_error [of loads m e st]
    on_message_handled [of loads m st e'] on_message_table [of loads m st]
    on_message_connected [of loads m st]
  by blast

theorem on_message_total_witness:
  "sample_loads ''junk'' = Inl JSONDecodeError
   \<and> on_message sample_loads \<lparr>topic = ''v1/devices/me/rpc/response/req-1000'', payload = ''junk''\<rparr>
       (store ''req-1000'' JNull sample_client) =
     emit (Print (L_parse_error ''junk'')) (store ''req-1000'' JNull sample_client)
   \<and> fst (on_message_try sample_loads
            \<lparr>topic = ''v1/devices/me/rpc/response/req-1000'', payload = ''C''\<rparr>
            (store ''req-1000'' JNull sample_client)) = Some TypeError
   \<and> on_message sample_loads \<lparr>topic = ''v1/devices/me/rpc/response/req-1000'', payload = ''C''\<rparr>
       (store ''req-1000'' JNull sample_client) =
     emit (Print (L_error TypeError))
       (emit (Print (L_response (JArr [JStr ''id'']))) (store ''req-1000'' JNull sample_client))
   \<and> pending_requests
       (on_message sample_loads \<lparr>topic = ''v1/devices/me/rpc/response/req-1000'', payload = ''C''\<rparr>
          (store ''req-1000'' JNull sample_client)) = [''req-1000'' \<mapsto> JNull]"
proof -
  let ?st = "store ''req-1000'' JNull sample_client"
  let ?mj = "\<lparr>topic = ''v1/devices/me/rpc/response/req-1000'', payload = ''junk''\<rparr>"
  let ?mc = "\<lparr>topic = ''v1/devices/me/rpc/response/req-1000'', payload = ''C''\<rparr>"
  have t: "on_message_try sample_loads ?mc ?st =
             (Some TypeError, emit (Print (L_response (JArr [JStr ''id'']))) ?st)"
    by (simp add: on_message_try_def startswith_def Let_def)
  show ?thesis
    using t on_message_total [of "''x''" sample_loads ?mj JSONDecodeError ?st TypeError]
      on_message_total [of "''x''" sample_loads ?mc JSONDecodeError ?st TypeError]
    by simp
qed

lemma set_connected_fields [simp]:
  "connected (set_connected st)"
  "trace (set_connected st) = trace st @ [SetConnected]"
  "broker (set_connected st) = broker st"
  "port (set_connected st) = port st"
  by (simp_all add: set_connected_def)

lemma run_stmts_Nil [simp]: "run_stmts [] st = st"
  by (simp add: run_stmts_def)

lemma run_stmts_Cons [simp]: "run_stmts (f # fs) st = run_stmts fs (f st)"
  by (simp add: run_stmts_def)

lemma run_stmts_append: "run_stmts (fs @ gs) st = run_stmts gs (run_stmts fs st)"
  by (simp add: run_stmts_def)

lemma run_stmts_take_add:
  "run_stmts (take a (drop n fs)) (run_stmts (take n fs) st) = run_stmts (take (n + a) fs) st"
  by (simp add: take_add run_stmts_append)

lemma on_connect_trace:
  "trace (on_connect 0 st) =
     trace st @ [Print (L_connected (broker st) (port st)), SetConnected,
                 Subscribe rpc_response_topic, Subscribe telemetry_topic,
                 Subscribe attributes_topic, Print L_subscribed]"
  "connected (on_connect 0 st)"
  by (simp_all add: on_connect_def on_connect_stmts_def)

lemma on_connect_refused: "rc \<noteq> 0 \<Longrightarrow> connected (on_connect rc st) = connected st"
  by (simp add: on_connect_def on_connect_stmts_def)

text \<open>The statements after the second only print or subscribe.\<close>

lemma run_emits_connected:
  "\<forall>f \<in> set fs. \<exists>e. f = emit e \<Longrightarrow> connected (run_stmts fs st) = connected st"
proof (induction fs arbitrary: st)
  case Nil
  then show ?case by simp
next
  case (Cons f fs)
  then obtain e where "f = emit e" by auto
  with Cons show ?case by simp
qed

lemma on_connect_prefix:
  "Subscribe t \<in> set (drop (length (trace st)) (trace (run_stmts (take k (on_connect_stmts 0)) st)))
     \<Longrightarrow> connected (run_stmts (take k (on_connect_stmts 0)) st)"
proof (cases k)
  case 0
  assume "Subscribe t \<in> set (drop (length (trace st)) (trace (run_stmts (take k (on_connect_stmts 0)) st)))"
  with 0 show ?thesis by simp
next
  case (Suc j)
  assume a: "Subscribe t \<in> set (drop (length (trace st)) (trace (run_stmts (take k (on_connect_stmts 0)) st)))"
  show ?thesis
  proof (cases j)
    case 0
    with Suc a show ?thesis by (simp add: on_connect_stmts_def)
  next
    case (Suc i)
    let ?tail = "[emit (Subscribe rpc_response_topic), emit (Subscribe telemetry_topic),
                  emit (Subscribe attributes_topic), emit (Print L_subscribed)]"
    have "\<forall>f \<in> set (take i ?tail). \<exists>e. f = emit e"
      using set_take_subset [of i ?tail] by auto
    then have "connected (run_stmts (take i ?tail)
                 (set_connected (emit (Print (L_connected (broker st) (port st))) st)))"
      by (simp add: run_emits_connected)
    with Suc \<open>k = Suc j\<close> show ?thesis by (simp add: on_connect_stmts_def)
  qed
qed

lemma connect_wait_run:
  "\<exists>n p. connect_wait timeout prog net st = (p, drop n net, run_stmts (take n net) st)"
proof (induction timeout prog net st rule: connect_wait.induct)
  case (1 timeout prog net st)
  let ?st1 = "run_stmts (take (seen prog) net) st"
  show ?case
  proof (cases "\<not> connected ?st1 \<and> timeout > 0")
    case False
    then have "connect_wait timeout prog net st = (tl prog, drop (seen prog) net, ?st1)"
      by (subst connect_wait.simps) (auto simp: Let_def)
    then show ?thesis by blast
  next
    case True
    then have eq: "connect_wait timeout prog net st =
        connect_wait (timeout - 1 / 2) (tl prog) (drop (seen prog) net) ?st1"
      by (subst connect_wait.simps) (simp add: Let_def)
    from "1.IH" [OF refl True] obtain n p where
      "connect_wait (timeout - 1 / 2) (tl prog) (drop (seen prog) net) ?st1 =
         (p, drop n (drop (seen prog) net), run_stmts (take n (drop (seen prog) net)) ?st1)"
      by blast
    with eq have "connect_wait timeout prog net st =
        (p, drop (seen prog + n) net, run_stmts (take (seen prog + n) net) st)"
      by (simp add: run_stmts_take_add add.commute)
    then show ?thesis by blast
  qed
qed

lemma connect_true:
  assumes "connect lk st = (True, st', rest)"
  shows "connected st'"
    and "\<exists>n. st' = run_stmts
           (take n (case connack lk of None \<Rightarrow> [] | Some rc \<Rightarrow> on_connect_stmts rc))
           (emit LoopStart (emit (ConnectCall (broker st) (port st)) st))
         \<and> rest = drop n (case connack lk of None \<Rightarrow> [] | Some rc \<Rightarrow> on_connect_stmts rc)"
proof -
  let ?net = "case connack lk of None \<Rightarrow> [] | Some rc \<Rightarrow> on_connect_stmts rc"
  let ?st1 = "emit LoopStart (emit (ConnectCall (broker st) (port st)) st)"
  from assms have d: "dial lk = None"
    by (cases "dial lk") (simp_all add: connect_def Let_def)
  obtain n p where w: "connect_wait 10 (progress lk) ?net ?st1 =
      (p, drop n ?net, run_stmts (take n ?net) ?st1)"
    using connect_wait_run by blast
  let ?st3 = "run_stmts (take (seen p) (drop n ?net)) (run_stmts (take n ?net) ?st1)"
  from assms d w have c: "connected ?st3" and s: "st' = ?st3"
    and r: "rest = drop (seen p) (drop n ?net)"
    by (auto simp: connect_def Let_def split: if_splits)
  from c s show "connected st'" by simp
  from s r have "st' = run_stmts (take (n + seen p) ?net) ?st1 \<and> rest = drop (n + seen p) ?net"
    by (simp add: run_stmts_take_add add.commute)
  then show "\<exists>n. st' = run_stmts (take n ?net) ?st1 \<and> rest = drop n ?net" by blast
qed

lemma connect_true_done:
  assumes "\<not> connected st" and "connect lk st = (True, st', [])"
  shows "trace st' =
           trace st @ [ConnectCall (broker st) (port st), LoopStart,
                       Print (L_connected (broker st) (port st)), SetConnected,
                       Subscribe rpc_response_topic, Subscribe telemetry_topic,
                       Subscribe attributes_topic, Print L_subscribed]"
proof -
  let ?net = "case connack lk of None \<Rightarrow> [] | Some rc \<Rightarrow> on_connect_stmts rc"
  let ?st1 = "emit LoopStart (emit (ConnectCall (broker st) (port st)) st)"
  from connect_true [OF assms(2)] obtain n where c: "connected st'"
    and s: "st' = run_stmts (take n ?net) ?st1" and r: "[] = drop n ?net" by blast
  from r have "take n ?net = ?net" by simp
  with s have all: "st' = run_stmts ?net ?st1" by simp
  have n1: "\<not> connected ?st1" using assms(1) by simp
  show ?thesis
  proof (cases "connack lk")
    case None
    with all c n1 show ?thesis by simp
  next
    case (Some rc)
    with all have o: "st' = on_connect rc ?st1" by (simp add: on_connect_def)
    show ?thesis
    proof (cases "rc = 0")
      case True
      with o show ?thesis by (simp add: on_connect_trace)
    next
      case False
      with o c n1 show ?thesis by (simp add: on_connect_refused)
    qed
  qed
qed

text \<open>
  Claim C9 as stated fails. The network thread has run \<open>_on_connect\<close> up to line 45
  when the caller's thread reads the flag: \<open>connect\<close> returns \<open>True\<close> with no
  subscribe call issued yet, and a request sent at once is published before the three
  subscribe calls.
\<close>

theorem connect_true_before_subscribe:
  "fst (connect \<lparr>dial = None, connack = Some 0, progress = [2]\<rparr> (init ''broker'' 1883)) = True
   \<and> trace (fst (snd (connect \<lparr>dial = None, connack = Some 0, progress = [2]\<rparr>
                       (init ''broker'' 1883)))) =
       [ConnectCall ''broker'' 1883, LoopStart, Print (L_connected ''broker'' 1883), SetConnected]
   \<and> trace (run_stmts
       (snd (snd (connect \<lparr>dial = None, connack = Some 0, progress = [2]\<rparr> (init ''broker'' 1883))))
       (send_request ''get_gps'' JNull True 1000
          (fst (snd (connect \<lparr>dial = None, connack = Some 0, progress = [2]\<rparr>
                       (init ''broker'' 1883)))))) =
       [ConnectCall ''broker'' 1883, LoopStart, Print (L_connected ''broker'' 1883), SetConnected,
        Store ''req-1000'' JNull,
        Publish ''v1/devices/me/rpc/request/req-1000''
          (JObj [(''method'', JStr ''get_gps''), (''params'', JObj [])]),
        Print (L_sent ''get_gps'' ''req-1000''),
        Subscribe ''v1/devices/me/rpc/response/+'', Subscribe ''v1/devices/me/telemetry'',
        Subscribe ''v1/devices/me/attributes'', Print L_subscribed]"
proof -
  have c: "connect \<lparr>dial = None, connack = Some 0, progress = [2]\<rparr> (init ''broker'' 1883) =
      (True,
       (init ''broker'' 1883)\<lparr>connected := True,
          trace := [ConnectCall ''broker'' 1883, LoopStart, Print (L_connected ''broker'' 1883),
                    SetConnected]\<rparr>,
       [emit (Subscribe rpc_response_topic), emit (Subscribe telemetry_topic),
        emit (Subscribe attributes_topic), emit (Print L_subscribed)])"
    by (simp add: connect_def connect_wait.simps [of 10] seen_def on_connect_stmts_def Let_def
        init_def emit_def set_connected_def)
  show ?thesis
    by (simp add: c send_request_fields rpc_request_prefix_def rpc_response_topic_def
        telemetry_topic_def attributes_topic_def)
qed

text \<open>
  Claim C9, amended. \<open>_on_connect\<close> with result code 0 sets \<open>connected\<close> first and then
  issues the three subscribe calls, response pattern, telemetry, attributes, in that
  order; at every point of the callback at which a subscribe call has been issued the
  flag is already true. \<open>connect\<close> returns \<open>True\<close> only with the flag true; and when it
  returns \<open>True\<close> on a client that was not connected and the callback has run to its
  end, the three subscribe calls have been issued.
\<close>

theorem connect_and_subscribe_order:
  "trace (on_connect 0 st) =
     trace st @ [Print (L_connected (broker st) (port st)), SetConnected,
                 Subscribe rpc_response_topic, Subscribe telemetry_topic,
                 Subscribe attributes_topic, Print L_subscribed]
   \<and> connected (on_connect 0 st)
   \<and> (Subscribe t \<in> set (drop (length (trace st))
                            (trace (run_stmts (take k (on_connect_stmts 0)) st))) \<longrightarrow>
        connected (run_stmts (take k (on_connect_stmts 0)) st))
   \<and> (connect lk st1 = (True, st2, rest) \<longrightarrow> connected st2)
   \<and> (\<not> connected st1 \<longrightarrow> connect lk st1 = (True, st2, []) \<longrightarrow>
        trace st2 =
          trace st1 @ [ConnectCall (broker st1) (port st1), LoopStart,
                       Print (L_connected (broker st1) (port st1)), SetConnected,
                       Subscribe rpc_response_topic, Subscribe telemetry_topic,
                       Subscribe attributes_topic, Print L_subscribed])"
  using on_connect_trace [of st] on_connect_prefix [of t st k] connect_true(1) [of lk st1 st2 rest]
    connect_true_done [of st1 lk st2]
  by blast

theorem connect_and_subscribe_order_witness:
  "Subscribe rpc_response_topic
     \<in> set (drop (length (trace (init ''broker'' 1883)))
               (trace (run_stmts (take 3 (on_connect_stmts 0)) (init ''broker'' 1883))))
   \<and> connected (run_stmts (take 3 (on_connect_stmts 0)) (init ''broker'' 1883))
   \<and> \<not> connected (init ''broker'' 1883)
   \<and> connect \<lparr>dial = None, connack = Some 0, progress = [0, 6]\<rparr> (init ''broker'' 1883) =
       (True,
        (init ''broker'' 1883)\<lparr>connected := True,
           trace := [ConnectCall ''broker'' 1883, LoopStart, Print (L_connected ''broker'' 1883),
                     SetConnected, Subscribe rpc_response_topic, Subscribe telemetry_topic,
                     Subscribe attributes_topic, Print L_subscribed]\<rparr>,
        [])
   \<and> connected
       ((init ''broker'' 1883)\<lparr>connected := True,
           trace := [ConnectCall ''broker'' 1883, LoopStart, Print (L_connected ''broker'' 1883),
                     SetConnected, Subscribe rpc_response_topic, Subscribe telemetry_topic,
                     Subscribe attributes_topic, Print L_subscribed]\<rparr>)"
proof -
  let ?st2 = "(init ''broker'' 1883)\<lparr>connected := True,
           trace := [ConnectCall ''broker'' 1883, LoopStart, Print (L_connected ''broker'' 1883),
                     SetConnected, Subscribe rpc_response_topic, Subscribe telemetry_topic,
                     Subscribe attributes_topic, Print L_subscribed]\<rparr>"
  have c: "connect \<lparr>dial = None, connack = Some 0, progress = [0, 6]\<rparr> (init ''broker'' 1883) =
      (True, ?st2, [])"
    by (simp add: connect_def connect_wait.simps [of 10] connect_wait.simps [of "19 / 2"]
        seen_def on_connect_stmts_def Let_def init_def emit_def set_connected_def)
  have s: "Subscribe rpc_response_topic
     \<in> set (drop (length (trace (init ''broker'' 1883)))
               (trace (run_stmts (take 3 (on_connect_stmts 0)) (init ''broker'' 1883))))"
    by (simp add: on_connect_stmts_def init_def)
  have n: "\<not> connected (init ''broker'' 1883)" by (simp add: init_def)
  show ?thesis
    using c s n connect_and_subscribe_order [of "init ''broker'' 1883" rpc_response_topic 3
        "\<lparr>dial = None, connack = Some 0, progress = [0, 6]\<rparr>" "init ''broker'' 1883" ?st2 "[]"]
    by simp
qed

end
